theory Spec2Isabelle
  imports Main
begin

section \<open>The greeting client \<^verbatim>\<open>grpc-go/client.py\<close>\<close>

text \<open>
  The program under verification is fifteen lines of Python:
  \<^verbatim>\<open>
  def run():
      with grpc.insecure_channel('localhost:50051') as channel:
          stub = greeting_pb2_grpc.GreeterStub(channel)
          response = stub.SayHello(greeting_pb2.HelloRequest(name='World'))
          print(f"Greeting: {response.message}")

  if __name__ == '__main__':
      run()
  \<close>
  It is embedded as a state-passing function over a \<open>world\<close>: the channel objects the
  process holds, the requests it has handed to the transport, and its two output streams.
  The remote side is a parameter (\<open>network\<close>). What a Python call can do is a value of
  \<open>outcome\<close>: return, raise, or never come back.
\<close>

subsection \<open>Values\<close>

text \<open>The failure taxonomy of the specification (section 7).\<close>

datatype error =
  ConfigurationError
| ConnectivityError
| DeadlineExceededError
| RemoteError nat string
| SerializationError
| ChannelClosedError

text \<open>
  The three ways a Python call ends: it returns a value, it raises, or it blocks for ever
  (a blocking call on which neither a reply nor a failure ever arrives).
\<close>

datatype 'a outcome = Returns 'a | Raises error | Blocks

text \<open>
  \<^verbatim>\<open>greeting_pb2.HelloRequest(name=...)\<close> and the reply message, of which the program
  reads the attribute \<^verbatim>\<open>message\<close>.
\<close>

record HelloRequest =
  name :: string

record Response =
  message :: string

subsection \<open>The process state and the remote side\<close>

datatype channel_state = Open | Closed

record Channel =
  target :: string
  state :: channel_state

text \<open>
  Channel objects live in a store and are referred to by their index, so that a stub holds
  a reference to its channel and not a copy of it. \<open>released\<close> logs every release of
  an underlying connection, \<open>sent\<close> every request handed to the transport (target,
  procedure, request), in order.
\<close>

record world =
  heap :: "Channel list"
  released :: "nat list"
  sent :: "(string \<times> string \<times> HelloRequest) list"
  stdout :: "string list"
  stderr :: "string list"

text \<open>
  What comes back on the wire for one request: a response message whose \<open>message\<close>
  field is present or absent, a payload that does not decode, an application-level fault
  with status code and text, or a reset of the transport. It arrives after some delay,
  or never.
\<close>

datatype answer =
  Payload "string option"
| Undecodable
| Fault nat string
| Reset

datatype arrival = Never | After nat answer

text \<open>A server is what its \<^verbatim>\<open>SayHello\<close> procedure does with a request.\<close>

type_synonym server = "HelloRequest \<Rightarrow> arrival"

text \<open>The servers listening, by target; \<open>None\<close> where nothing listens.\<close>

type_synonym network = "string \<Rightarrow> server option"

subsection \<open>The gRPC runtime and the generated stub\<close>

text \<open>
  Modelled from the spec: \<^verbatim>\<open>grpc.insecure_channel\<close> is not among the sources. It is
  the specification's \<open>open(endpoint)\<close> with the lazy policy: a fresh open Channel
  for the target, and nothing is sent. The specification fixes neither the syntax of a
  target nor the range of valid ports, so the rejection of malformed targets is left out
  of the model. The only target the program passes is the literal of line 7, with host
  \<^verbatim>\<open>localhost\<close> and port 50051, which no reading of \<open>well-formed\<close> rejects.
\<close>

definition insecure_channel :: "string \<Rightarrow> world \<Rightarrow> nat outcome \<times> world" where
  "insecure_channel tgt w =
     (Returns (length (heap w)), w\<lparr>heap := heap w @ [\<lparr>target = tgt, state = Open\<rparr>]\<rparr>)"

text \<open>
  Modelled from the spec: \<^verbatim>\<open>Channel.close\<close> is not among the sources. It releases
  the underlying connection of an open Channel and makes the Channel closed; on a closed
  Channel it does nothing.
\<close>

definition close :: "nat \<Rightarrow> world \<Rightarrow> world" where
  "close h w =
     (if h < length (heap w) then
        (if state (heap w ! h) = Open
         then w\<lparr>heap := (heap w)[h := (heap w ! h)\<lparr>state := Closed\<rparr>],
                released := released w @ [h]\<rparr>
         else w)
      else w)"

text \<open>
  Modelled from the spec: the Channel as a context manager (scoped acquisition with
  guaranteed release) is not among the sources. Entering yields the Channel itself;
  leaving closes it and does not swallow an exception of the body (the result
  \<open>False\<close>).
\<close>

definition channel_enter :: "nat \<Rightarrow> world \<Rightarrow> nat outcome \<times> world" where
  "channel_enter h w = (Returns h, w)"

definition channel_exit :: "nat \<Rightarrow> world \<Rightarrow> bool \<times> world" where
  "channel_exit h w = (False, close h w)"

text \<open>
  Modelled from the spec: deserialisation of what arrived (section 4.2). An absent field
  takes the default value, the empty string.
\<close>

fun deliver :: "answer \<Rightarrow> Response outcome" where
  "deliver (Payload None) = Returns \<lparr>message = ''''\<rparr>"
| "deliver (Payload (Some s)) = Returns \<lparr>message = s\<rparr>"
| "deliver Undecodable = Raises SerializationError"
| "deliver (Fault code text) = Raises (RemoteError code text)"
| "deliver Reset = Raises ConnectivityError"

text \<open>
  Modelled from the spec: the blocking unary call of the runtime is not among the sources
  (section 4.2, \<open>call(procedureName, request)\<close>). On a closed Channel it fails with
  \<open>ChannelClosedError\<close> and sends nothing. Otherwise the request is handed to the
  transport once; with nothing listening the call fails with \<open>ConnectivityError\<close>;
  with a timeout \<open>t\<close> it fails with \<open>DeadlineExceededError\<close> when nothing arrives
  within \<open>t\<close>; with no timeout it waits for as long as it takes.
\<close>

definition unary_unary ::
  "network \<Rightarrow> nat \<Rightarrow> string \<Rightarrow> HelloRequest \<Rightarrow> nat option \<Rightarrow> world \<Rightarrow> Response outcome \<times> world" where
  "unary_unary net h procedure request timeout w =
     (if h < length (heap w) then
        (case state (heap w ! h) of
           Closed \<Rightarrow> (Raises ChannelClosedError, w)
         | Open \<Rightarrow>
             (let w' = w\<lparr>sent := sent w @ [(target (heap w ! h), procedure, request)]\<rparr> in
              case net (target (heap w ! h)) of
                None \<Rightarrow> (Raises ConnectivityError, w')
              | Some srv \<Rightarrow>
                  (case srv request of
                     Never \<Rightarrow>
                       (case timeout of
                          None \<Rightarrow> (Blocks, w')
                        | Some t \<Rightarrow> (Raises DeadlineExceededError, w'))
                   | After d a \<Rightarrow>
                       (case timeout of
                          None \<Rightarrow> (deliver a, w')
                        | Some t \<Rightarrow>
                            if t < d then (Raises DeadlineExceededError, w')
                            else (deliver a, w')))))
      else (Raises ChannelClosedError, w))"

text \<open>
  Modelled from the spec: \<^verbatim>\<open>greeting_pb2_grpc.GreeterStub\<close> is generated code that is
  not among the sources. A stub is a stateless binding that holds a reference to its
  Channel; its method \<^verbatim>\<open>SayHello(request, timeout=None)\<close> is the unary call of the
  procedure of that name.
\<close>

datatype GreeterStub = GreeterStub (channel: nat)

definition SayHello ::
  "network \<Rightarrow> GreeterStub \<Rightarrow> HelloRequest \<Rightarrow> nat option \<Rightarrow> world \<Rightarrow> Response outcome \<times> world" where
  "SayHello net stub request timeout w =
     unary_unary net (channel stub) ''SayHello'' request timeout w"

subsection \<open>The Python the program is written in\<close>

text \<open>\<^verbatim>\<open>print(line)\<close>: one more line on standard output.\<close>

definition print :: "string \<Rightarrow> world \<Rightarrow> unit outcome \<times> world" where
  "print line w = (Returns (), w\<lparr>stdout := stdout w @ [line]\<rparr>)"

text \<open>
  The statement \<^verbatim>\<open>with ctx as c: body\<close>. The context expression is evaluated and the
  manager entered; an exception in either propagates and nothing is left. The body runs
  with what entering returned. When the body returns, the manager is left. When the body
  raises, the manager is left and the exception propagates unless leaving returned true.
  When the body never comes back, neither does the statement.
\<close>

definition with_stmt ::
  "(world \<Rightarrow> 'm outcome \<times> world) \<Rightarrow> ('m \<Rightarrow> world \<Rightarrow> 'c outcome \<times> world) \<Rightarrow>
   ('m \<Rightarrow> world \<Rightarrow> bool \<times> world) \<Rightarrow> ('c \<Rightarrow> world \<Rightarrow> unit outcome \<times> world) \<Rightarrow>
   world \<Rightarrow> unit outcome \<times> world" where
  "with_stmt ctx enter leave body w =
     (case ctx w of
        (Raises e, w1) \<Rightarrow> (Raises e, w1)
      | (Blocks, w1) \<Rightarrow> (Blocks, w1)
      | (Returns m, w1) \<Rightarrow>
          (case enter m w1 of
             (Raises e, w2) \<Rightarrow> (Raises e, w2)
           | (Blocks, w2) \<Rightarrow> (Blocks, w2)
           | (Returns c, w2) \<Rightarrow>
               (case body c w2 of
                  (Returns u, w3) \<Rightarrow> (Returns (), snd (leave m w3))
                | (Raises e, w3) \<Rightarrow>
                    (case leave m w3 of
                       (swallow, w4) \<Rightarrow>
                         if swallow then (Returns (), w4) else (Raises e, w4))
                | (Blocks, w3) \<Rightarrow> (Blocks, w3))))"

text \<open>
  What the interpreter writes to the error stream for an exception nobody caught: the
  traceback header and the exception's own line (the frames between them depend on where
  the file is installed and are left out).
\<close>

fun reason :: "error \<Rightarrow> string" where
  "reason ConfigurationError = ''ConfigurationError''"
| "reason ConnectivityError = ''ConnectivityError''"
| "reason DeadlineExceededError = ''DeadlineExceededError''"
| "reason (RemoteError code text) = ''RemoteError: '' @ text"
| "reason SerializationError = ''SerializationError''"
| "reason ChannelClosedError = ''ChannelClosedError''"

definition traceback :: "error \<Rightarrow> string list" where
  "traceback e = [''Traceback (most recent call last):'', reason e]"

subsection \<open>The program\<close>

text \<open>Lines 5 to 12. The call of line 11 passes no \<^verbatim>\<open>timeout\<close>.\<close>

definition run :: "network \<Rightarrow> world \<Rightarrow> unit outcome \<times> world" where
  "run net w =
     with_stmt (insecure_channel ''localhost:50051'') channel_enter channel_exit
       (\<lambda>channel w1.
          let stub = GreeterStub channel in
          case SayHello net stub \<lparr>name = ''World''\<rparr> None w1 of
            (Returns response, w2) \<Rightarrow> print (''Greeting: '' @ message response) w2
          | (Raises e, w2) \<Rightarrow> (Raises e, w2)
          | (Blocks, w2) \<Rightarrow> (Blocks, w2))
       w"

text \<open>
  Lines 14 and 15: the body of the module calls \<open>run\<close> when the module is the script
  being executed, and does nothing when it is imported.
\<close>

definition module_body :: "string \<Rightarrow> network \<Rightarrow> world \<Rightarrow> unit outcome \<times> world" where
  "module_body dunder_name net w =
     (if dunder_name = ''__main__'' then run net w else (Returns (), w))"

text \<open>
  The process \<^verbatim>\<open>python client.py\<close>: the interpreter executes the module as
  \<^verbatim>\<open>__main__\<close>. It exits with code 0 when the module body returned, and with code 1
  after writing the traceback when an exception left it; it does not exit while the
  body blocks (\<open>None\<close>).
\<close>

definition main :: "network \<Rightarrow> world \<Rightarrow> nat option \<times> world" where
  "main net w =
     (case module_body ''__main__'' net w of
        (Returns u, w') \<Rightarrow> (Some 0, w')
      | (Raises e, w') \<Rightarrow> (Some 1, w'\<lparr>stderr := stderr w' @ traceback e\<rparr>)
      | (Blocks, w') \<Rightarrow> (None, w'))"

subsection \<open>Vocabulary of the properties\<close>

text \<open>The channels of a world that are open.\<close>

definition open_channels :: "world \<Rightarrow> nat list" where
  "open_channels w = filter (\<lambda>h. state (heap w ! h) = Open) [0..<length (heap w)]"

text \<open>
  What client code can do with the runtime, one operation at a time: open a channel, close
  one, call through a stub, print. A list of such operations is a history.
\<close>

datatype action =
  Open_channel string
| Close_channel nat
| Call GreeterStub HelloRequest "nat option"
| Print string

fun step :: "network \<Rightarrow> world \<Rightarrow> action \<Rightarrow> world" where
  "step net w (Open_channel tgt) = snd (insecure_channel tgt w)"
| "step net w (Close_channel h) = close h w"
| "step net w (Call stub request timeout) = snd (SayHello net stub request timeout w)"
| "step net w (Print line) = snd (print line w)"

subsection \<open>Concrete worlds and networks\<close>

text \<open>
  A process that has just started; the same with one open channel; the server of the
  specification's example; a server that answers with a fault; a server that never
  answers.
\<close>

definition boot :: world where
  "boot = \<lparr>heap = [], released = [], sent = [], stdout = [], stderr = []\<rparr>"

definition fresh_channel :: world where
  "fresh_channel = boot\<lparr>heap := [\<lparr>target = ''localhost:50051'', state = Open\<rparr>]\<rparr>"

definition hello_server :: server where
  "hello_server request = After 3 (Payload (Some (''Hello, '' @ name request)))"

definition hello_network :: network where
  "hello_network tgt = (if tgt = ''localhost:50051'' then Some hello_server else None)"

definition faulty_network :: network where
  "faulty_network tgt = Some (\<lambda>request. After 0 (Fault 13 ''internal''))"

definition silent_network :: network where
  "silent_network tgt = Some (\<lambda>request. Never)"

section \<open>Auxiliary facts\<close>

lemmas evals = main_def module_body_def run_def with_stmt_def insecure_channel_def
  channel_enter_def channel_exit_def close_def SayHello_def unary_unary_def print_def
  boot_def hello_network_def hello_server_def faulty_network_def silent_network_def
  traceback_def open_channels_def

lemma pair_of: "f = (fst f, snd f)"
  by simp

lemma boot_opened:
  "insecure_channel ''localhost:50051'' boot =
     (Returns 0, snd (insecure_channel ''localhost:50051'' boot))"
  by (simp add: insecure_channel_def boot_def)

lemma deliver_not_blocks: "deliver a \<noteq> Blocks"
  by (cases a rule: deliver.cases) simp_all

lemma deliver_not_deadline: "deliver a \<noteq> Raises DeadlineExceededError"
  by (cases a rule: deliver.cases) simp_all

lemma opened:
  "insecure_channel t w = (Returns chan, w1) \<Longrightarrow>
   chan = length (heap w) \<and> w1 = w\<lparr>heap := heap w @ [\<lparr>target = t, state = Open\<rparr>]\<rparr>"
  by (auto simp: insecure_channel_def)

text \<open>The call made on the channel that was just opened.\<close>

lemma call_on_fresh:
  "SayHello net (GreeterStub (length (heap w))) rq None
       (w\<lparr>heap := heap w @ [\<lparr>target = t, state = Open\<rparr>]\<rparr>) =
     ((case net t of
         None \<Rightarrow> Raises ConnectivityError
       | Some srv \<Rightarrow> (case srv rq of Never \<Rightarrow> Blocks | After d a \<Rightarrow> deliver a)),
      w\<lparr>heap := heap w @ [\<lparr>target = t, state = Open\<rparr>],
        sent := sent w @ [(t, ''SayHello'', rq)]\<rparr>)"
  by (simp add: SayHello_def unary_unary_def Let_def split: option.splits arrival.splits)

lemma call_result:
  assumes o: "insecure_channel t w = (Returns chan, w1)"
      and c: "SayHello net (GreeterStub chan) rq None w1 = (out, w2)"
  shows "out = (case net t of
                  None \<Rightarrow> Raises ConnectivityError
                | Some srv \<Rightarrow> (case srv rq of Never \<Rightarrow> Blocks | After d a \<Rightarrow> deliver a))"
    and "w2 = w\<lparr>heap := heap w @ [\<lparr>target = t, state = Open\<rparr>],
                sent := sent w @ [(t, ''SayHello'', rq)]\<rparr>"
  using opened [OF o] c by (simp_all add: call_on_fresh)

text \<open>\<open>run\<close> and \<open>main\<close>, in terms of the outcome of the program's one call.\<close>

lemma run_of_call:
  assumes o: "insecure_channel ''localhost:50051'' w = (Returns chan, w1)"
      and c: "SayHello net (GreeterStub chan) \<lparr>name = ''World''\<rparr> None w1 = (out, w2)"
  shows "run net w =
     (case out of
        Returns r \<Rightarrow>
          (Returns (), close chan (w2\<lparr>stdout := stdout w2 @ [''Greeting: '' @ message r]\<rparr>))
      | Raises e \<Rightarrow> (Raises e, close chan w2)
      | Blocks \<Rightarrow> (Blocks, w2))"
  using o c
  by (simp add: run_def with_stmt_def channel_enter_def channel_exit_def print_def
      split: outcome.splits)

lemma main_result:
  assumes o: "insecure_channel ''localhost:50051'' w = (Returns chan, w1)"
      and c: "SayHello net (GreeterStub chan) \<lparr>name = ''World''\<rparr> None w1 = (out, w2)"
  shows "main net w =
     (case out of
        Returns r \<Rightarrow>
          (Some 0, close chan (w2\<lparr>stdout := stdout w2 @ [''Greeting: '' @ message r]\<rparr>))
      | Raises e \<Rightarrow>
          (Some 1, (close chan w2)\<lparr>stderr := stderr (close chan w2) @ traceback e\<rparr>)
      | Blocks \<Rightarrow> (None, w2))"
  using run_of_call [OF o c] by (cases out) (simp_all add: main_def module_body_def)

lemma close_keeps [simp]:
  "stdout (close h w) = stdout w" "stderr (close h w) = stderr w" "sent (close h w) = sent w"
  "length (heap (close h w)) = length (heap w)"
  "map target (heap (close h w)) = map target (heap w)"
  by (simp_all add: close_def map_update list_update_same_conv)

lemma open_channels_closed_last:
  assumes h: "heap w' = heap w @ [\<lparr>target = t, state = Closed\<rparr>]"
  shows "open_channels w' = open_channels w"
proof -
  have "filter (\<lambda>h. state ((heap w @ [\<lparr>target = t, state = Closed\<rparr>]) ! h) = Open)
           [0..<length (heap w)]
      = filter (\<lambda>h. state (heap w ! h) = Open) [0..<length (heap w)]"
    by (rule filter_cong) (auto simp: nth_append)
  then show ?thesis
    by (simp add: open_channels_def h)
qed

lemma run_exit:
  assumes r: "run net w = (out, w')" and "out \<noteq> Blocks"
  shows "heap w' = heap w @ [\<lparr>target = ''localhost:50051'', state = Closed\<rparr>]
       \<and> released w' = released w @ [length (heap w)]"
proof -
  obtain chan w1 where o: "insecure_channel ''localhost:50051'' w = (Returns chan, w1)"
    by (simp add: insecure_channel_def)
  obtain o2 w2 where
    c: "SayHello net (GreeterStub chan) \<lparr>name = ''World''\<rparr> None w1 = (o2, w2)"
    by (cases "SayHello net (GreeterStub chan) \<lparr>name = ''World''\<rparr> None w1")
  have chan: "chan = length (heap w)"
    using opened [OF o] by simp
  have w2: "w2 = w\<lparr>heap := heap w @ [\<lparr>target = ''localhost:50051'', state = Open\<rparr>],
          sent := sent w @ [(''localhost:50051'', ''SayHello'', \<lparr>name = ''World''\<rparr>)]\<rparr>"
    using call_result(2) [OF o c] .
  show ?thesis
    using assms run_of_call [OF o c]
    by (cases o2) (auto simp: w2 chan close_def)
qed

text \<open>A closed channel stays closed, whatever is done next.\<close>

lemma call_keeps_heap: "heap (snd (SayHello net stub request timeout w)) = heap w"
  by (simp add: SayHello_def unary_unary_def Let_def
      split: channel_state.splits option.splits arrival.splits)

lemma close_other:
  "h < length (heap w) \<Longrightarrow> state (heap w ! h) = Closed \<Longrightarrow>
   h < length (heap (close k w)) \<and> state (heap (close k w) ! h) = Closed"
  by (cases "k = h") (simp_all add: close_def)

lemma step_keeps_closed:
  assumes "h < length (heap w)" and "state (heap w ! h) = Closed"
  shows "h < length (heap (step net w a)) \<and> state (heap (step net w a) ! h) = Closed"
proof (cases a)
  case (Open_channel tgt)
  with assms show ?thesis by (simp add: insecure_channel_def nth_append)
next
  case (Close_channel k)
  with assms close_other show ?thesis by simp
next
  case (Call stub request timeout)
  with assms show ?thesis by (simp add: call_keeps_heap)
next
  case (Print line)
  with assms show ?thesis by (simp add: print_def)
qed

lemma later_keeps_closed:
  "h < length (heap w) \<Longrightarrow> state (heap w ! h) = Closed \<Longrightarrow>
   h < length (heap (foldl (step net) w later))
   \<and> state (heap (foldl (step net) w later) ! h) = Closed"
proof (induction later arbitrary: w)
  case Nil
  then show ?case by simp
next
  case (Cons a later)
  from step_keeps_closed [OF Cons.prems, of net a]
  have "h < length (heap (step net w a))" and "state (heap (step net w a) ! h) = Closed"
    by simp_all
  from Cons.IH [OF this] show ?case by simp
qed

lemma close_closes:
  "h < length (heap w) \<Longrightarrow>
   h < length (heap (close h w)) \<and> state (heap (close h w) ! h) = Closed"
  by (cases "state (heap w ! h)") (simp_all add: close_def)

lemma call_on_closed:
  "h < length (heap w) \<Longrightarrow> state (heap w ! h) = Closed \<Longrightarrow>
   SayHello net (GreeterStub h) request timeout w = (Raises ChannelClosedError, w)"
  by (simp add: SayHello_def unary_unary_def)

section \<open>The claims\<close>

text \<open>
  In the statements below, \<open>chan\<close> and \<open>w1\<close> are the channel the program opens and the
  world it is opened in, \<open>out\<close> is the outcome of the program's one call (line 11), and
  \<open>code\<close> and \<open>w'\<close> are the exit code of the process and the world it leaves.
\<close>

subsection \<open>C1: the greeting scenario\<close>

text \<open>
  Claim C1. With a server listening at \<^verbatim>\<open>localhost:50051\<close> whose \<^verbatim>\<open>SayHello\<close> answers
  every request with the message \<^verbatim>\<open>"Hello, " + name\<close>, the program's call with the
  request \<^verbatim>\<open>{name: "World"}\<close> returns the response with message \<^verbatim>\<open>Hello, World\<close>; the
  process exits with code 0, and by then that message has been printed (as the line
  \<^verbatim>\<open>Greeting: Hello, World\<close>).

  The statement is proved for a server that puts any fixed \<open>greeting\<close> in front of the
  name, the claim being the case \<^verbatim>\<open>"Hello, "\<close> (last conjunct), so that the line printed is
  tied to what the server answered. It gives the whole world the process leaves: the one
  channel to \<^verbatim>\<open>localhost:50051\<close>, opened and closed again, its connection released, the
  one request \<^verbatim>\<open>SayHello {name: "World"}\<close> handed to the transport, and the one line on
  standard output.
\<close>

theorem hello_world_scenario:
  assumes live: "net ''localhost:50051'' = Some srv"
      and greets: "\<forall>request. \<exists>d. srv request = After d (Payload (Some (greeting @ name request)))"
      and o: "insecure_channel ''localhost:50051'' w = (Returns chan, w1)"
      and m: "main net w = (code, w')"
  shows "fst (SayHello net (GreeterStub chan) \<lparr>name = ''World''\<rparr> None w1) =
           Returns \<lparr>message = greeting @ ''World''\<rparr>
       \<and> fst (run net w) = Returns ()
       \<and> code = Some 0
       \<and> w' = w\<lparr>heap := heap w @ [\<lparr>target = ''localhost:50051'', state = Closed\<rparr>],
                 released := released w @ [length (heap w)],
                 sent := sent w @ [(''localhost:50051'', ''SayHello'', \<lparr>name = ''World''\<rparr>)],
                 stdout := stdout w @ [''Greeting: '' @ greeting @ ''World'']\<rparr>
       \<and> (greeting = ''Hello, '' \<longrightarrow>
              fst (SayHello net (GreeterStub chan) \<lparr>name = ''World''\<rparr> None w1) =
                Returns \<lparr>message = ''Hello, World''\<rparr>
            \<and> stdout w' = stdout w @ [''Greeting: Hello, World''])"
proof -
  obtain out w2 where
    c: "SayHello net (GreeterStub chan) \<lparr>name = ''World''\<rparr> None w1 = (out, w2)"
    by (cases "SayHello net (GreeterStub chan) \<lparr>name = ''World''\<rparr> None w1")
  from greets obtain d where
    "srv \<lparr>name = ''World''\<rparr> = After d (Payload (Some (greeting @ name \<lparr>name = ''World''\<rparr>)))"
    by blast
  with live call_result [OF o c] have out: "out = Returns \<lparr>message = greeting @ ''World''\<rparr>"
    and w2: "w2 = w\<lparr>heap := heap w @ [\<lparr>target = ''localhost:50051'', state = Open\<rparr>],
                    sent := sent w @ [(''localhost:50051'', ''SayHello'', \<lparr>name = ''World''\<rparr>)]\<rparr>"
    by simp_all
  have chan: "chan = length (heap w)"
    using opened [OF o] by simp
  have call: "fst (SayHello net (GreeterStub chan) \<lparr>name = ''World''\<rparr> None w1) =
                Returns \<lparr>message = greeting @ ''World''\<rparr>"
    by (simp add: c out)
  have ran: "fst (run net w) = Returns ()"
    using run_of_call [OF o c] by (simp add: out)
  have fin: "code = Some 0
       \<and> w' = w\<lparr>heap := heap w @ [\<lparr>target = ''localhost:50051'', state = Closed\<rparr>],
                 released := released w @ [length (heap w)],
                 sent := sent w @ [(''localhost:50051'', ''SayHello'', \<lparr>name = ''World''\<rparr>)],
                 stdout := stdout w @ [''Greeting: '' @ greeting @ ''World'']\<rparr>"
    using main_result [OF o c] m
    by (auto simp: out w2 chan close_def)
  then have "stdout w' = stdout w @ [''Greeting: '' @ greeting @ ''World'']"
    by simp
  with call ran fin show ?thesis
    by simp
qed

theorem hello_world_scenario_witness:
  "fst (SayHello hello_network (GreeterStub 0) \<lparr>name = ''World''\<rparr> None
         (snd (insecure_channel ''localhost:50051'' boot))) =
     Returns \<lparr>message = ''Hello, World''\<rparr>
   \<and> main hello_network boot =
       (Some 0,
        \<lparr>heap = [\<lparr>target = ''localhost:50051'', state = Closed\<rparr>],
         released = [0],
         sent = [(''localhost:50051'', ''SayHello'', \<lparr>name = ''World''\<rparr>)],
         stdout = [''Greeting: Hello, World''],
         stderr = []\<rparr>)"
proof -
  have live: "hello_network ''localhost:50051'' = Some hello_server"
    by (simp add: hello_network_def)
  have greets:
    "\<forall>request. \<exists>d. hello_server request = After d (Payload (Some (''Hello, '' @ name request)))"
    by (simp add: hello_server_def)
  from hello_world_scenario [where net = hello_network and srv = hello_server and w = boot
      and greeting = "''Hello, ''", OF live greets boot_opened pair_of]
  show ?thesis by (simp add: boot_def prod_eq_iff)
qed

subsection \<open>C2: the channel is released on every exit path\<close>

text \<open>
  Claim C2. Whenever \<open>run\<close> is left, by returning or by an exception of the call, the
  channel it opened is closed and its connection has been released once: the open channels
  are those that were open before \<open>run\<close> started. \<open>run\<close> is left in every case but
  one, that of a server that never answers.
\<close>

theorem channel_released_on_every_exit:
  assumes "run net w = (out, w')"
  shows "(out \<noteq> Blocks \<longrightarrow>
            open_channels w' = open_channels w
          \<and> released w' = released w @ [length (heap w)]
          \<and> heap w' = heap w @ [\<lparr>target = ''localhost:50051'', state = Closed\<rparr>])
       \<and> (out = Blocks) =
           (\<exists>srv. net ''localhost:50051'' = Some srv \<and> srv \<lparr>name = ''World''\<rparr> = Never)"
proof -
  obtain chan w1 where o: "insecure_channel ''localhost:50051'' w = (Returns chan, w1)"
    by (simp add: insecure_channel_def)
  obtain o2 w2 where
    c: "SayHello net (GreeterStub chan) \<lparr>name = ''World''\<rparr> None w1 = (o2, w2)"
    by (cases "SayHello net (GreeterStub chan) \<lparr>name = ''World''\<rparr> None w1")
  have blocks: "(out = Blocks) = (o2 = Blocks)"
    using assms run_of_call [OF o c] by (cases o2) auto
  have "(o2 = Blocks) =
          (\<exists>srv. net ''localhost:50051'' = Some srv \<and> srv \<lparr>name = ''World''\<rparr> = Never)"
    using call_result(1) [OF o c]
    by (auto simp: deliver_not_blocks split: option.splits arrival.splits)
  with blocks run_exit [OF assms] open_channels_closed_last [of w' w "''localhost:50051''"]
  show ?thesis by auto
qed

theorem channel_released_on_every_exit_witness:
  "open_channels (snd (run hello_network boot)) = []
   \<and> released (snd (run hello_network boot)) = [0]
   \<and> fst (run hello_network boot) = Returns ()
   \<and> open_channels (snd (run faulty_network boot)) = []
   \<and> released (snd (run faulty_network boot)) = [0]
   \<and> fst (run faulty_network boot) = Raises (RemoteError 13 ''internal'')"
proof -
  have a: "fst (run hello_network boot) = Returns ()"
    by (simp add: evals)
  have b: "fst (run faulty_network boot) = Raises (RemoteError 13 ''internal'')"
    by (simp add: evals)
  from channel_released_on_every_exit [OF pair_of, of hello_network boot] a
  have 1: "open_channels (snd (run hello_network boot)) = []
         \<and> released (snd (run hello_network boot)) = [0]"
    by (simp add: boot_def open_channels_def)
  from channel_released_on_every_exit [OF pair_of, of faulty_network boot] b
  have 2: "open_channels (snd (run faulty_network boot)) = []
         \<and> released (snd (run faulty_network boot)) = [0]"
    by (simp add: boot_def open_channels_def)
  from 1 2 a b show ?thesis by simp
qed

subsection \<open>C3: nothing listens\<close>

text \<open>
  Claim C3. When nothing listens at \<^verbatim>\<open>localhost:50051\<close>, the program's call fails with
  \<open>ConnectivityError\<close>, the process exits with the non-zero code 1, and nothing has
  been written to standard output (the traceback is on the error stream).
\<close>

theorem no_listener_fails:
  assumes none: "net ''localhost:50051'' = None"
      and o: "insecure_channel ''localhost:50051'' w = (Returns chan, w1)"
      and m: "main net w = (code, w')"
  shows "fst (SayHello net (GreeterStub chan) \<lparr>name = ''World''\<rparr> None w1) =
           Raises ConnectivityError
       \<and> code = Some 1
       \<and> stdout w' = stdout w
       \<and> stderr w' = stderr w @ traceback ConnectivityError"
proof -
  obtain out w2 where
    c: "SayHello net (GreeterStub chan) \<lparr>name = ''World''\<rparr> None w1 = (out, w2)"
    by (cases "SayHello net (GreeterStub chan) \<lparr>name = ''World''\<rparr> None w1")
  from none call_result [OF o c] have out: "out = Raises ConnectivityError"
    and w2: "stdout w2 = stdout w" "stderr w2 = stderr w"
    by simp_all
  from main_result [OF o c] m out w2 show ?thesis
    by (auto simp add: c)
qed

theorem no_listener_fails_witness:
  "fst (SayHello (\<lambda>t. None) (GreeterStub 0) \<lparr>name = ''World''\<rparr> None
         (snd (insecure_channel ''localhost:50051'' boot))) = Raises ConnectivityError
   \<and> fst (main (\<lambda>t. None) boot) = Some 1
   \<and> stdout (snd (main (\<lambda>t. None) boot)) = []
   \<and> stderr (snd (main (\<lambda>t. None) boot)) =
        [''Traceback (most recent call last):'', ''ConnectivityError'']"
proof -
  have none: "(\<lambda>t::string. None :: server option) ''localhost:50051'' = None"
    by simp
  from no_listener_fails [OF none boot_opened pair_of]
  show ?thesis by (simp add: boot_def traceback_def)
qed

subsection \<open>C4: the exit code\<close>

text \<open>
  Claim C4. The exit code is 0 exactly when the program's call returned a response and the
  line with that response was printed. When the call raised, whatever the failure, the
  exit code is 1, the traceback with the failure's reason has been appended to the error
  stream, and nothing was printed.
\<close>

theorem exit_code_contract:
  assumes o: "insecure_channel ''localhost:50051'' w = (Returns chan, w1)"
      and c: "SayHello net (GreeterStub chan) \<lparr>name = ''World''\<rparr> None w1 = (out, w2)"
      and m: "main net w = (code, w')"
  shows "(code = Some 0) =
           (\<exists>r. out = Returns r \<and> stdout w' = stdout w @ [''Greeting: '' @ message r])
       \<and> (\<forall>e. out = Raises e \<longrightarrow>
              code = Some 1
            \<and> stderr w' = stderr w @ traceback e
            \<and> reason e \<in> set (stderr w')
            \<and> stdout w' = stdout w)"
proof -
  have w2: "stdout w2 = stdout w" "stderr w2 = stderr w"
    using call_result(2) [OF o c] by simp_all
  show ?thesis
    using main_result [OF o c] m w2
    by (cases out) (auto simp: traceback_def)
qed

theorem exit_code_contract_witness:
  "fst (main hello_network boot) = Some 0
   \<and> stdout (snd (main hello_network boot)) = [''Greeting: Hello, World'']
   \<and> fst (main faulty_network boot) = Some 1
   \<and> stdout (snd (main faulty_network boot)) = []
   \<and> stderr (snd (main faulty_network boot)) =
        [''Traceback (most recent call last):'', ''RemoteError: internal'']"
proof -
  have good: "fst (SayHello hello_network (GreeterStub 0) \<lparr>name = ''World''\<rparr> None
         (snd (insecure_channel ''localhost:50051'' boot))) = Returns \<lparr>message = ''Hello, World''\<rparr>"
    by (simp add: evals)
  have printed: "stdout (snd (main hello_network boot)) = [''Greeting: Hello, World'']"
    by (simp add: evals)
  from exit_code_contract [where net = hello_network, OF boot_opened pair_of pair_of]
    good printed
  have ok: "fst (main hello_network boot) = Some 0"
    by (simp add: boot_def)
  have fault: "fst (SayHello faulty_network (GreeterStub 0) \<lparr>name = ''World''\<rparr> None
         (snd (insecure_channel ''localhost:50051'' boot))) = Raises (RemoteError 13 ''internal'')"
    by (simp add: evals)
  from exit_code_contract [where net = faulty_network, OF boot_opened pair_of pair_of] fault
  have bad: "fst (main faulty_network boot) = Some 1
      \<and> stdout (snd (main faulty_network boot)) = []
      \<and> stderr (snd (main faulty_network boot)) =
        [''Traceback (most recent call last):'', ''RemoteError: internal'']"
    by (simp add: boot_def traceback_def)
  from printed ok bad show ?thesis by simp
qed

subsection \<open>C6: a closed channel rejects every call\<close>

text \<open>
  Claim C6. Take any channel of a world reached by any history of operations, close it,
  and let any further operations follow (other channels opened, calls made, this one
  closed again). A call through a stub bound to that channel then fails with
  \<open>ChannelClosedError\<close>, for every request and timeout: it does not block, it does
  not return, and it changes nothing.
\<close>

theorem closed_channel_rejects_calls:
  assumes "h < length (heap (foldl (step net) w0 history))"
  shows "SayHello net (GreeterStub h) request timeout
           (foldl (step net) (close h (foldl (step net) w0 history)) later) =
         (Raises ChannelClosedError,
          foldl (step net) (close h (foldl (step net) w0 history)) later)"
proof -
  from close_closes [OF assms]
  have "h < length (heap (close h (foldl (step net) w0 history)))"
    and "state (heap (close h (foldl (step net) w0 history)) ! h) = Closed"
    by simp_all
  from later_keeps_closed [OF this, of net later] show ?thesis
    by (simp add: call_on_closed)
qed

theorem closed_channel_rejects_calls_witness:
  "SayHello hello_network (GreeterStub 0) \<lparr>name = ''World''\<rparr> None
     (foldl (step hello_network)
        (close 0 (foldl (step hello_network) boot
           [Open_channel ''localhost:50051'', Call (GreeterStub 0) \<lparr>name = ''World''\<rparr> None]))
        [Open_channel ''localhost:50051'', Close_channel 0,
         Call (GreeterStub 1) \<lparr>name = ''again''\<rparr> (Some 5)]) =
   (Raises ChannelClosedError,
    \<lparr>heap = [\<lparr>target = ''localhost:50051'', state = Closed\<rparr>,
             \<lparr>target = ''localhost:50051'', state = Open\<rparr>],
     released = [0],
     sent = [(''localhost:50051'', ''SayHello'', \<lparr>name = ''World''\<rparr>),
             (''localhost:50051'', ''SayHello'', \<lparr>name = ''again''\<rparr>)],
     stdout = [], stderr = []\<rparr>)"
proof -
  have valid: "0 < length (heap (foldl (step hello_network) boot
           [Open_channel ''localhost:50051'', Call (GreeterStub 0) \<lparr>name = ''World''\<rparr> None]))"
    by (simp add: evals)
  have world: "foldl (step hello_network)
        (close 0 (foldl (step hello_network) boot
           [Open_channel ''localhost:50051'', Call (GreeterStub 0) \<lparr>name = ''World''\<rparr> None]))
        [Open_channel ''localhost:50051'', Close_channel 0,
         Call (GreeterStub 1) \<lparr>name = ''again''\<rparr> (Some 5)] =
    \<lparr>heap = [\<lparr>target = ''localhost:50051'', state = Closed\<rparr>,
             \<lparr>target = ''localhost:50051'', state = Open\<rparr>],
     released = [0],
     sent = [(''localhost:50051'', ''SayHello'', \<lparr>name = ''World''\<rparr>),
             (''localhost:50051'', ''SayHello'', \<lparr>name = ''again''\<rparr>)],
     stdout = [], stderr = []\<rparr>"
    by (simp add: evals)
  from closed_channel_rejects_calls [OF valid, where request = "\<lparr>name = ''World''\<rparr>"
      and timeout = None
      and later = "[Open_channel ''localhost:50051'', Close_channel 0,
                    Call (GreeterStub 1) \<lparr>name = ''again''\<rparr> (Some 5)]"]
  show ?thesis
    by (simp only: world)
qed

subsection \<open>C8: no timeout, no deadline\<close>

text \<open>
  Claim C8. The program's call passes no timeout, so it never fails with
  \<open>DeadlineExceededError\<close>, and neither does \<open>run\<close>. The call blocks exactly when a
  server listens and never answers; the process then never exits.
\<close>

theorem no_deadline_without_timeout:
  assumes o: "insecure_channel ''localhost:50051'' w = (Returns chan, w1)"
      and c: "SayHello net (GreeterStub chan) \<lparr>name = ''World''\<rparr> None w1 = (out, w2)"
      and m: "main net w = (code, w')"
  shows "out \<noteq> Raises DeadlineExceededError
       \<and> (out = Blocks) =
           (\<exists>srv. net ''localhost:50051'' = Some srv \<and> srv \<lparr>name = ''World''\<rparr> = Never)
       \<and> (code = None) = (out = Blocks)
       \<and> fst (run net w) \<noteq> Raises DeadlineExceededError"
proof -
  have out: "out = (case net ''localhost:50051'' of
                  None \<Rightarrow> Raises ConnectivityError
                | Some srv \<Rightarrow>
                    (case srv \<lparr>name = ''World''\<rparr> of Never \<Rightarrow> Blocks | After d a \<Rightarrow> deliver a))"
    using call_result(1) [OF o c] .
  have 1: "out \<noteq> Raises DeadlineExceededError"
    by (simp add: out deliver_not_deadline split: option.splits arrival.splits)
  have 2: "(out = Blocks) =
             (\<exists>srv. net ''localhost:50051'' = Some srv \<and> srv \<lparr>name = ''World''\<rparr> = Never)"
    by (auto simp add: out deliver_not_blocks split: option.splits arrival.splits)
  have 3: "(code = None) = (out = Blocks)"
    using main_result [OF o c] m by (cases out) auto
  have 4: "fst (run net w) \<noteq> Raises DeadlineExceededError"
    using run_of_call [OF o c] 1 by (cases out) auto
  from 1 2 3 4 show ?thesis by blast
qed

theorem no_deadline_without_timeout_witness:
  "fst (SayHello silent_network (GreeterStub 0) \<lparr>name = ''World''\<rparr> None
         (snd (insecure_channel ''localhost:50051'' boot))) = Blocks
   \<and> fst (main silent_network boot) = None
   \<and> fst (run silent_network boot) \<noteq> Raises DeadlineExceededError
   \<and> fst (SayHello silent_network (GreeterStub 0) \<lparr>name = ''World''\<rparr> (Some 30)
         (snd (insecure_channel ''localhost:50051'' boot))) = Raises DeadlineExceededError"
proof -
  have silent:
    "\<exists>srv. silent_network ''localhost:50051'' = Some srv \<and> srv \<lparr>name = ''World''\<rparr> = Never"
    by (simp add: silent_network_def)
  have timed: "fst (SayHello silent_network (GreeterStub 0) \<lparr>name = ''World''\<rparr> (Some 30)
         (snd (insecure_channel ''localhost:50051'' boot))) = Raises DeadlineExceededError"
    by (simp add: evals)
  from no_deadline_without_timeout [where net = silent_network,
      OF boot_opened pair_of pair_of] silent timed
  show ?thesis by simp
qed

subsection \<open>C9: the call changes nothing but the wire\<close>

text \<open>
  Claim C9. A call through a stub, whatever its outcome, leaves the world as it was but
  for the log of requests handed to the transport, which grows by exactly this one
  request when the stub's channel is open and not at all otherwise. Nothing is cached:
  the same call made again has the same outcome.
\<close>

theorem unary_call_frame:
  assumes c: "SayHello net stub request timeout w = (out, w')"
  shows "(channel stub \<in> set (open_channels w) \<longrightarrow>
            w' = w\<lparr>sent := sent w @ [(target (heap w ! channel stub), ''SayHello'', request)]\<rparr>)
       \<and> (channel stub \<notin> set (open_channels w) \<longrightarrow> w' = w)
       \<and> fst (SayHello net stub request timeout w') = out"
  using c
  by (auto simp: SayHello_def unary_unary_def open_channels_def Let_def
      split: if_splits channel_state.splits option.splits arrival.splits)

theorem unary_call_frame_witness:
  "snd (SayHello hello_network (GreeterStub 0) \<lparr>name = ''World''\<rparr> None fresh_channel) =
     fresh_channel\<lparr>sent := [(''localhost:50051'', ''SayHello'', \<lparr>name = ''World''\<rparr>)]\<rparr>
   \<and> fst (SayHello hello_network (GreeterStub 0) \<lparr>name = ''World''\<rparr> None
         (snd (SayHello hello_network (GreeterStub 0) \<lparr>name = ''World''\<rparr> None fresh_channel))) =
       fst (SayHello hello_network (GreeterStub 0) \<lparr>name = ''World''\<rparr> None fresh_channel)
   \<and> snd (SayHello hello_network (GreeterStub 0) \<lparr>name = ''World''\<rparr> None
         (close 0 fresh_channel)) = close 0 fresh_channel"
proof -
  have is_open: "channel (GreeterStub 0) \<in> set (open_channels fresh_channel)"
    by (simp add: open_channels_def fresh_channel_def boot_def)
  have is_closed: "channel (GreeterStub 0) \<notin> set (open_channels (close 0 fresh_channel))"
    by (simp add: open_channels_def fresh_channel_def boot_def close_def)
  note inst = unary_call_frame [where net = hello_network and stub = "GreeterStub 0"
      and request = "\<lparr>name = ''World''\<rparr>" and timeout = None and w = fresh_channel,
      OF pair_of]
  from inst is_open
  have 1: "snd (SayHello hello_network (GreeterStub 0) \<lparr>name = ''World''\<rparr> None fresh_channel) =
     fresh_channel\<lparr>sent := [(''localhost:50051'', ''SayHello'', \<lparr>name = ''World''\<rparr>)]\<rparr>"
    by (simp add: fresh_channel_def boot_def)
  from inst
  have 2: "fst (SayHello hello_network (GreeterStub 0) \<lparr>name = ''World''\<rparr> None
         (snd (SayHello hello_network (GreeterStub 0) \<lparr>name = ''World''\<rparr> None fresh_channel))) =
       fst (SayHello hello_network (GreeterStub 0) \<lparr>name = ''World''\<rparr> None fresh_channel)"
    by blast
  from unary_call_frame [where net = hello_network and stub = "GreeterStub 0"
      and request = "\<lparr>name = ''World''\<rparr>" and timeout = None and w = "close 0 fresh_channel",
      OF pair_of] is_closed
  have 3: "snd (SayHello hello_network (GreeterStub 0) \<lparr>name = ''World''\<rparr> None
         (close 0 fresh_channel)) = close 0 fresh_channel"
    by blast
  from 1 2 3 show ?thesis by blast
qed

subsection \<open>C10: the endpoint and the request are constants\<close>

text \<open>
  Claim C10. Whatever the network does, the process opens one channel, to
  \<^verbatim>\<open>localhost:50051\<close>, and hands exactly one request to the transport: \<^verbatim>\<open>SayHello\<close> with
  the name \<^verbatim>\<open>World\<close>. When the call returns a response, exactly one line is printed,
  \<^verbatim>\<open>Greeting: \<close> followed by the response's message; otherwise nothing is printed.
\<close>

theorem constant_endpoint_and_request:
  assumes o: "insecure_channel ''localhost:50051'' w = (Returns chan, w1)"
      and c: "SayHello net (GreeterStub chan) \<lparr>name = ''World''\<rparr> None w1 = (out, w2)"
      and m: "main net w = (code, w')"
  shows "map target (heap w') = map target (heap w) @ [''localhost:50051'']
       \<and> sent w' = sent w @ [(''localhost:50051'', ''SayHello'', \<lparr>name = ''World''\<rparr>)]
       \<and> (\<forall>r. out = Returns r \<longrightarrow> stdout w' = stdout w @ [''Greeting: '' @ message r])
       \<and> ((\<forall>r. out \<noteq> Returns r) \<longrightarrow> stdout w' = stdout w)"
proof -
  have w2: "w2 = w\<lparr>heap := heap w @ [\<lparr>target = ''localhost:50051'', state = Open\<rparr>],
      sent := sent w @ [(''localhost:50051'', ''SayHello'', \<lparr>name = ''World''\<rparr>)]\<rparr>"
    using call_result(2) [OF o c] .
  show ?thesis
    using main_result [OF o c] m
    by (cases out) (auto simp: w2)
qed

theorem constant_endpoint_and_request_witness:
  "map target (heap (snd (main hello_network boot))) = [''localhost:50051'']
   \<and> sent (snd (main hello_network boot)) =
        [(''localhost:50051'', ''SayHello'', \<lparr>name = ''World''\<rparr>)]
   \<and> stdout (snd (main hello_network boot)) = [''Greeting: Hello, World'']
   \<and> sent (snd (main faulty_network boot)) =
        [(''localhost:50051'', ''SayHello'', \<lparr>name = ''World''\<rparr>)]
   \<and> stdout (snd (main faulty_network boot)) = []"
proof -
  have good: "fst (SayHello hello_network (GreeterStub 0) \<lparr>name = ''World''\<rparr> None
         (snd (insecure_channel ''localhost:50051'' boot))) = Returns \<lparr>message = ''Hello, World''\<rparr>"
    by (simp add: evals)
  have fault: "fst (SayHello faulty_network (GreeterStub 0) \<lparr>name = ''World''\<rparr> None
         (snd (insecure_channel ''localhost:50051'' boot))) = Raises (RemoteError 13 ''internal'')"
    by (simp add: evals)
  from constant_endpoint_and_request [where net = hello_network,
      OF boot_opened pair_of pair_of] good
  have 1: "map target (heap (snd (main hello_network boot))) = [''localhost:50051'']
   \<and> sent (snd (main hello_network boot)) =
        [(''localhost:50051'', ''SayHello'', \<lparr>name = ''World''\<rparr>)]
   \<and> stdout (snd (main hello_network boot)) = [''Greeting: Hello, World'']"
    by (simp add: boot_def)
  from constant_endpoint_and_request [where net = faulty_network,
      OF boot_opened pair_of pair_of] fault
  have 2: "sent (snd (main faulty_network boot)) =
        [(''localhost:50051'', ''SayHello'', \<lparr>name = ''World''\<rparr>)]
   \<and> stdout (snd (main faulty_network boot)) = []"
    by (simp add: boot_def)
  from 1 2 show ?thesis by simp
qed

end
